theory Spec2Isabelle
  imports Complex_Main
begin

section \<open>Statistics: \<open>SessionRepository.getStatistics\<close>\<close>

text \<open>
  \<open>src/data/repositories/SessionRepository.ts\<close>, lines 126 to 190.

  A \<open>date_iso\<close> column holds a calendar day written \<open>yyyy-MM-dd\<close>. It is represented
  here by the number of that day (an integer, one more for each later calendar day):
  on such strings JavaScript's \<open>sort()\<close> is chronological, and \<open>parseISO\<close> yields the
  local midnight of the day, so that \<open>differenceInDays\<close> (date-fns) of two parsed dates,
  or of \<open>startOfDay(new Date())\<close> and a parsed date, is the difference of the day numbers.
  The column is written by \<open>mapToDb\<close> when a session is saved (below).
\<close>

type_synonym day = int

text \<open>The columns of a \<open>session_logs\<close> row that \<open>getStatistics\<close> reads.\<close>

record DbSessionLog =
  date_iso :: day
  db_completed :: int

record Statistics =
  totalSessions :: nat
  currentStreak :: nat
  longestStreak :: nat
  completionRate :: nat
  lastSessionDate :: "day option"

definition differenceInDays :: "day \<Rightarrow> day \<Rightarrow> int" where
  "differenceInDays dateLeft dateRight = dateLeft - dateRight"

text \<open>
  \<open>mapToDb\<close> (lines 41 to 51), for the two columns above. An instant is what
  \<open>Date.getTime()\<close> returns, the milliseconds since the epoch. The \<open>startTime\<close> of a
  session is \<open>toISOString()\<close> of its start, which is written in UTC, so
  \<open>startTime.split('T')[0]\<close> is the UTC date of the start.
\<close>

type_synonym instant = int

definition utc_date :: "instant \<Rightarrow> day" where
  "utc_date t = t div 86400000"

definition mapToDb :: "instant \<Rightarrow> bool \<Rightarrow> DbSessionLog" where
  "mapToDb start flag = \<lparr>date_iso = utc_date start, db_completed = (if flag then 1 else 0)\<rparr>"

text \<open>
  The local date of an instant, in a time zone given by its offset from UTC in minutes
  (positive to the east, the same at every instant considered).
  \<open>startOfDay(new Date())\<close> is the local midnight of the local date of the current
  instant.
\<close>

definition local_date :: "int \<Rightarrow> instant \<Rightarrow> day" where
  "local_date offset t = (t + offset * 60000) div 86400000"

text \<open>
  \<open>SELECT date_iso, completed FROM session_logs WHERE completed = 1 ORDER BY date_iso DESC\<close>
\<close>

definition select_completed :: "DbSessionLog list \<Rightarrow> DbSessionLog list" where
  "select_completed session_logs =
     rev (sort_key date_iso (filter (\<lambda>r. db_completed r = 1) session_logs))"

text \<open>\<open>[...new Set(xs)]\<close>: the distinct elements, each at its first occurrence.\<close>

definition new_Set :: "'a list \<Rightarrow> 'a list" where
  "new_Set xs = rev (remdups (rev xs))"

text \<open>\<open>[...new Set(completedSessions.map(s => s.date_iso))].sort().reverse()\<close>\<close>

definition uniqueDates_of :: "DbSessionLog list \<Rightarrow> day list" where
  "uniqueDates_of completedSessions = rev (sort (new_Set (map date_iso completedSessions)))"

text \<open>The three counters that the two loops of \<open>getStatistics\<close> share.\<close>

record streak_vars =
  var_currentStreak :: nat
  var_longestStreak :: nat
  var_tempStreak :: nat

text \<open>
  The first loop (lines 149 to 167), from index \<open>i\<close> on. \<open>break\<close> returns the counters
  as they are.
\<close>

function current_streak_loop :: "day \<Rightarrow> day list \<Rightarrow> nat \<Rightarrow> streak_vars \<Rightarrow> streak_vars" where
  "current_streak_loop today uniqueDates i s =
     (if i < length uniqueDates then
        (if i = 0 \<and> (differenceInDays today (uniqueDates ! i) = 0
                     \<or> differenceInDays today (uniqueDates ! i) = 1) then
           current_streak_loop today uniqueDates (i + 1)
             \<lparr>var_currentStreak = var_currentStreak s + 1,
              var_longestStreak = max (var_longestStreak s) 1,
              var_tempStreak = 1\<rparr>
         else if i > 0 \<and> differenceInDays (uniqueDates ! (i - 1)) (uniqueDates ! i) = 1 then
           current_streak_loop today uniqueDates (i + 1)
             \<lparr>var_currentStreak = var_currentStreak s + 1,
              var_longestStreak = max (var_longestStreak s) (var_tempStreak s + 1),
              var_tempStreak = var_tempStreak s + 1\<rparr>
         else s)
      else s)"
  by pat_completeness auto
termination
  by (relation "measure (\<lambda>(today, uniqueDates, i, s). length uniqueDates - i)") auto

text \<open>
  The second loop (lines 171 to 178), from index \<open>i\<close> on; \<open>var_currentStreak\<close> is not
  touched.
\<close>

function longest_streak_loop :: "day list \<Rightarrow> nat \<Rightarrow> streak_vars \<Rightarrow> streak_vars" where
  "longest_streak_loop uniqueDates i s =
     (if i < length uniqueDates then
        (if differenceInDays (uniqueDates ! (i - 1)) (uniqueDates ! i) = 1 then
           longest_streak_loop uniqueDates (i + 1)
             (s\<lparr>var_tempStreak := var_tempStreak s + 1,
                var_longestStreak := max (var_longestStreak s) (var_tempStreak s + 1)\<rparr>)
         else
           longest_streak_loop uniqueDates (i + 1) (s\<lparr>var_tempStreak := 1\<rparr>))
      else s)"
  by pat_completeness auto
termination
  by (relation "measure (\<lambda>(uniqueDates, i, s). length uniqueDates - i)") auto

text \<open>
  \<open>Math.round((completed / total) * 100)\<close>, in double precision. The double nearest to
  a positive quotient \<open>a / b\<close> (below \<open>2 ^ 53\<close>, and not subnormal) is \<open>m / 2 ^ k\<close> for the
  pair \<open>(m, k)\<close> of \<open>to_double a b\<close>: \<open>k\<close> places the quotient between \<open>2 ^ 52\<close> and
  \<open>2 ^ 53\<close>, where it is rounded to the nearest integer, a tie to the even one. The
  division and the multiplication each round once; \<open>Math.round\<close> then takes the
  nearest integer, a half rounded up.
\<close>

fun bit_length :: "nat \<Rightarrow> nat" where
  "bit_length n = (if n = 0 then 0 else Suc (bit_length (n div 2)))"

definition round_half_even :: "nat \<Rightarrow> nat \<Rightarrow> nat" where
  "round_half_even a b =
     (if 2 * (a mod b) < b then a div b
      else if b < 2 * (a mod b) then a div b + 1
      else if even (a div b) then a div b else a div b + 1)"

definition to_double :: "nat \<Rightarrow> nat \<Rightarrow> nat \<times> nat" where
  "to_double a b =
     (if a = 0 then (0, 0)
      else
        (let k = (if b * 2 ^ bit_length a \<le> a * 2 ^ bit_length b
                  then 52 + bit_length b - bit_length a
                  else 53 + bit_length b - bit_length a)
         in (round_half_even (a * 2 ^ k) b, k)))"

definition round_percent :: "nat \<Rightarrow> nat \<Rightarrow> nat" where
  "round_percent completed n =
     (case to_double completed n of
        (m, k) \<Rightarrow>
          (case to_double (100 * m) (2 ^ k) of
             (m', k') \<Rightarrow> (2 * m' + 2 ^ k') div 2 ^ (k' + 1)))"

definition getStatistics :: "day \<Rightarrow> DbSessionLog list \<Rightarrow> Statistics" where
  "getStatistics today session_logs =
     (let completedSessions = select_completed session_logs;
          total_count = length session_logs;
          completed = length completedSessions;
          uniqueDates = uniqueDates_of completedSessions;
          s1 = current_streak_loop today uniqueDates 0
                 \<lparr>var_currentStreak = 0, var_longestStreak = 0, var_tempStreak = 0\<rparr>;
          s2 = longest_streak_loop uniqueDates 1 (s1\<lparr>var_tempStreak := 1\<rparr>)
      in \<lparr>totalSessions = total_count,
          currentStreak = var_currentStreak s2,
          longestStreak = var_longestStreak s2,
          completionRate = (if total_count > 0 then round_percent completed total_count else 0),
          lastSessionDate = (if length uniqueDates > 0 then Some (uniqueDates ! 0) else None)\<rparr>)"


text \<open>
  A history gives, for each session, the instant it started and whether it was
  completed. The statistics returned at the instant \<open>now\<close>, in the time zone of the given
  offset, for the sessions of a history as they were saved.
\<close>

definition statistics_of_history :: "int \<Rightarrow> instant \<Rightarrow> (instant \<times> bool) list \<Rightarrow> Statistics" where
  "statistics_of_history offset now history =
     getStatistics (local_date offset now) (map (\<lambda>(start, flag). mapToDb start flag) history)"


section \<open>JavaScript values\<close>

text \<open>
  A string is the list of its code units (those below 256). \<open>String.prototype.trim\<close>
  removes white space at both ends: tab, line feed, vertical tab, form feed, carriage
  return, space and no-break space among these code units.
\<close>

definition is_whitespace :: "char \<Rightarrow> bool" where
  "is_whitespace c = (c = CHR 0x09 \<or> c = CHR 0x0A \<or> c = CHR 0x0B \<or> c = CHR 0x0C
                      \<or> c = CHR 0x0D \<or> c = CHR 0x20 \<or> c = CHR 0xA0)"

definition trim :: "string \<Rightarrow> string" where
  "trim s = rev (dropWhile is_whitespace (rev (dropWhile is_whitespace s)))"

text \<open>
  An optional number (\<open>reps?: number\<close>), here an integer, is \<open>None\<close> when undefined. In
  a condition it counts as true when it is defined and not zero.
\<close>

definition truthy :: "int option \<Rightarrow> bool" where
  "truthy x = (case x of None \<Rightarrow> False | Some v \<Rightarrow> v \<noteq> 0)"

text \<open>\<open>!s || s.trim() === ''\<close> for an optional string.\<close>

definition missing_or_blank :: "string option \<Rightarrow> bool" where
  "missing_or_blank x = (case x of None \<Rightarrow> True | Some s \<Rightarrow> s = [] \<or> trim s = [])"

text \<open>\<open>Array.prototype.findIndex\<close>: the first index whose element satisfies \<open>p\<close>, else \<open>-1\<close>.\<close>

fun findIndex :: "('a \<Rightarrow> bool) \<Rightarrow> 'a list \<Rightarrow> int" where
  "findIndex p [] = - 1"
| "findIndex p (x # xs) =
     (if p x then 0 else (if findIndex p xs < 0 then - 1 else findIndex p xs + 1))"

text \<open>
  \<open>String(n)\<close> and \<open>n.toString()\<close> for a counter \<open>n\<close>: its decimal digits, the leading one
  first.
\<close>

definition digit :: "nat \<Rightarrow> char" where
  "digit d = ''0123456789'' ! d"

fun toString :: "nat \<Rightarrow> string" where
  "toString n = (if n div 10 = 0 then [digit n] else toString (n div 10) @ [digit (n mod 10)])"

text \<open>\<open>Math.ceil(t / 60)\<close> on an integer \<open>t\<close>, the division taken exactly.\<close>

definition Math_ceil_div :: "int \<Rightarrow> int \<Rightarrow> int" where
  "Math_ceil_div t d = - ((- t) div d)"

text \<open>
  Every failure of the services is \<open>throw new Error(message)\<close>. An operation returns its
  result, or the error thrown, together with the repositories as it leaves them.
\<close>

datatype error = Error string


section \<open>Domain models\<close>

text \<open>
  \<open>domain/models\<close>: the fields that the services read or write. The descriptive lists
  of an \<open>Exercise\<close> (target muscles, instructions, tips, warnings) are read by none of
  them.
\<close>

datatype ExerciseCategory = stretching | strengthening | flexibility | posture

datatype ExerciseType = type_reps | type_duration

record Exercise =
  ex_id :: string
  ex_name :: string
  ex_description :: string
  ex_category :: ExerciseCategory
  ex_type :: ExerciseType
  ex_reps :: "int option"
  ex_duration :: "int option"

text \<open>\<open>Partial<Exercise>\<close>, the argument of \<open>validateExercise\<close>: every field optional.\<close>

record PartialExercise =
  name :: "string option"
  description :: "string option"
  category :: "ExerciseCategory option"
  reps :: "int option"
  duration :: "int option"

datatype RoutineType = morning | evening | custom

record Routine =
  routine_id :: string
  routine_name :: string
  routine_type :: RoutineType
  exerciseIds :: "string list"
  estimatedDuration :: int

record ExerciseCompletion =
  exerciseId :: string
  exercise_completed :: bool
  actual_reps :: "int option"
  actual_duration :: "int option"

text \<open>\<open>Omit<SessionLog, 'id'>\<close>, and \<open>SessionLog\<close> as its extension by the identifier.\<close>

record SessionLog_without_id =
  routineId :: string
  startTime :: string
  endTime :: "string option"
  exercises :: "ExerciseCompletion list"
  completed :: bool

record SessionLog = SessionLog_without_id +
  session_id :: string


section \<open>Repositories\<close>

text \<open>
  The services see their repositories through the interfaces of
  \<open>domain/interfaces/IRepositories\<close>. The repositories modelled are the in-memory ones
  of \<open>data/repositories/__mocks__\<close>, which the services' tests run against: a list of
  entities, found by equality of identifiers, and a counter for the next identifier.
  (The SQLite repositories hand the same operations to the database, with the
  identifier read by \<open>parseInt\<close>.)
\<close>

type_synonym MockExerciseRepository = "Exercise list"

definition exercise_getById :: "MockExerciseRepository \<Rightarrow> string \<Rightarrow> Exercise option" where
  "exercise_getById repo i = find (\<lambda>e. ex_id e = i) repo"

record MockRoutineRepository =
  routines :: "Routine list"
  routine_nextId :: nat

definition routine_getById :: "MockRoutineRepository \<Rightarrow> string \<Rightarrow> Routine option" where
  "routine_getById repo i = find (\<lambda>r. routine_id r = i) (routines repo)"

definition routine_save :: "MockRoutineRepository \<Rightarrow> Routine \<Rightarrow> MockRoutineRepository" where
  "routine_save repo routine =
     \<lparr>routines = routines repo @ [routine\<lparr>routine_id := toString (routine_nextId repo)\<rparr>],
      routine_nextId = routine_nextId repo + 1\<rparr>"

definition routine_delete :: "MockRoutineRepository \<Rightarrow> string \<Rightarrow> MockRoutineRepository" where
  "routine_delete repo i = repo\<lparr>routines := filter (\<lambda>r. routine_id r \<noteq> i) (routines repo)\<rparr>"

record MockSessionRepository =
  sessions :: "SessionLog list"
  session_nextId :: nat

definition session_getById :: "MockSessionRepository \<Rightarrow> string \<Rightarrow> SessionLog option" where
  "session_getById repo i = find (\<lambda>s. session_id s = i) (sessions repo)"

definition session_save :: "MockSessionRepository \<Rightarrow> SessionLog_without_id \<Rightarrow> string \<times> MockSessionRepository" where
  "session_save repo session =
     (let newSession = \<lparr>routineId = routineId session, startTime = startTime session,
                         endTime = endTime session, exercises = exercises session,
                         completed = completed session,
                         session_id = toString (session_nextId repo)\<rparr>
      in (session_id newSession,
          \<lparr>sessions = sessions repo @ [newSession], session_nextId = session_nextId repo + 1\<rparr>))"

definition session_update :: "MockSessionRepository \<Rightarrow> SessionLog \<Rightarrow> MockSessionRepository" where
  "session_update repo session =
     (let index = findIndex (\<lambda>s. session_id s = session_id session) (sessions repo)
      in if index \<noteq> - 1 then repo\<lparr>sessions := (sessions repo)[nat index := session]\<rparr>
         else repo)"


section \<open>\<open>ExerciseService\<close>\<close>

text \<open>
  \<open>calculateTotalDuration\<close> (lines 53 to 69). The loop adds, for each exercise, its
  duration when \<open>exercise.duration\<close> is truthy, else three seconds a rep when
  \<open>exercise.reps\<close> is truthy.
\<close>

fun totalSeconds_loop :: "int \<Rightarrow> Exercise list \<Rightarrow> int" where
  "totalSeconds_loop totalSeconds [] = totalSeconds"
| "totalSeconds_loop totalSeconds (exercise # rest) =
     totalSeconds_loop
       (if truthy (ex_duration exercise) then totalSeconds + the (ex_duration exercise)
        else if truthy (ex_reps exercise) then totalSeconds + the (ex_reps exercise) * 3
        else totalSeconds)
       rest"

text \<open>The value of \<open>totalSeconds\<close> when the function returns.\<close>

definition totalSeconds_of :: "Exercise list \<Rightarrow> int" where
  "totalSeconds_of exercise_list =
     totalSeconds_loop 0 exercise_list + (int (length exercise_list) - 1) * 10"

definition calculateTotalDuration :: "Exercise list \<Rightarrow> int" where
  "calculateTotalDuration exercise_list = Math_ceil_div (totalSeconds_of exercise_list) 60"

text \<open>\<open>validateExercise\<close> (lines 102 to 120): the message returned, \<open>None\<close> for \<open>null\<close>.\<close>

definition validateExercise :: "PartialExercise \<Rightarrow> string option" where
  "validateExercise exercise =
     (if missing_or_blank (name exercise) then Some ''Name is required''
      else if missing_or_blank (description exercise) then Some ''Description is required''
      else if category exercise = None then Some ''Category is required''
      else if \<not> truthy (reps exercise) \<and> \<not> truthy (duration exercise)
        then Some ''Either reps or duration must be specified''
      else None)"


section \<open>\<open>RoutineService\<close>\<close>

record RoutineService =
  routineRepository :: MockRoutineRepository
  exerciseRepository :: MockExerciseRepository

text \<open>The loop of \<open>getRoutineExercises\<close>: an identifier that resolves to nothing is skipped.\<close>

fun push_found :: "MockExerciseRepository \<Rightarrow> Exercise list \<Rightarrow> string list \<Rightarrow> Exercise list" where
  "push_found repo acc [] = acc"
| "push_found repo acc (i # rest) =
     (case exercise_getById repo i of
        Some exercise \<Rightarrow> push_found repo (acc @ [exercise]) rest
      | None \<Rightarrow> push_found repo acc rest)"

definition getRoutineExercises :: "RoutineService \<Rightarrow> string \<Rightarrow> error + Exercise list" where
  "getRoutineExercises svc routineId' =
     (case routine_getById (routineRepository svc) routineId' of
        None \<Rightarrow> Inl (Error ''Routine not found'')
      | Some routine \<Rightarrow> Inr (push_found (exerciseRepository svc) [] (exerciseIds routine)))"

text \<open>\<open>calculateRoutineDuration\<close> (lines 58 to 75), with its own copy of the loop.\<close>

definition calculateRoutineDuration :: "RoutineService \<Rightarrow> string \<Rightarrow> error + int" where
  "calculateRoutineDuration svc routineId' =
     (case getRoutineExercises svc routineId' of
        Inl e \<Rightarrow> Inl e
      | Inr exercise_list \<Rightarrow>
          (let totalSeconds = totalSeconds_loop 0 exercise_list;
               totalSeconds = totalSeconds + (int (length exercise_list) - 1) * 10
           in Inr (Math_ceil_div totalSeconds 60)))"

text \<open>The loop of \<open>createRoutine\<close> that checks every identifier: the first error thrown.\<close>

fun validate_all_exist :: "MockExerciseRepository \<Rightarrow> string list \<Rightarrow> error option" where
  "validate_all_exist repo [] = None"
| "validate_all_exist repo (i # rest) =
     (case exercise_getById repo i of
        None \<Rightarrow> Some (Error (''Exercise with ID '' @ i @ '' not found''))
      | Some exercise \<Rightarrow> validate_all_exist repo rest)"

definition createRoutine ::
    "RoutineService \<Rightarrow> string \<Rightarrow> string list \<Rightarrow> (error + unit) \<times> RoutineService" where
  "createRoutine svc title ids =
     (if title = [] \<or> trim title = [] then (Inl (Error ''Routine title is required''), svc)
      else if length ids = 0 then
        (Inl (Error ''Routine must contain at least one exercise''), svc)
      else
        (case validate_all_exist (exerciseRepository svc) ids of
           Some e \<Rightarrow> (Inl e, svc)
         | None \<Rightarrow>
             (let routine = \<lparr>routine_id = ''0'', routine_name = title, routine_type = custom,
                             exerciseIds = ids, estimatedDuration = 0\<rparr>
              in (Inr (),
                  svc\<lparr>routineRepository := routine_save (routineRepository svc) routine\<rparr>))))"

definition deleteRoutine :: "RoutineService \<Rightarrow> string \<Rightarrow> (error + unit) \<times> RoutineService" where
  "deleteRoutine svc routineId' =
     (case routine_getById (routineRepository svc) routineId' of
        None \<Rightarrow> (Inl (Error ''Routine not found''), svc)
      | Some routine \<Rightarrow>
          if routine_type routine = morning \<or> routine_type routine = evening then
            (Inl (Error ''Cannot delete default routines''), svc)
          else
            (Inr (),
             svc\<lparr>routineRepository := routine_delete (routineRepository svc) routineId'\<rparr>))"


section \<open>\<open>SessionService\<close>\<close>

text \<open>
  \<open>createSession\<close> (lines 14 to 25). \<open>now\<close> is \<open>new Date().toISOString()\<close>, the current
  time.
\<close>

definition createSession :: "MockSessionRepository \<Rightarrow> string \<Rightarrow> string \<Rightarrow> string \<times> MockSessionRepository" where
  "createSession repo routineId' now =
     session_save repo
       \<lparr>routineId = routineId', startTime = now, endTime = None, exercises = [],
        completed = False\<rparr>"

text \<open>\<open>markExerciseComplete\<close> (lines 30 to 58).\<close>

definition markExerciseComplete ::
    "MockSessionRepository \<Rightarrow> string \<Rightarrow> string \<Rightarrow> int option \<Rightarrow> int option
       \<Rightarrow> (error + unit) \<times> MockSessionRepository" where
  "markExerciseComplete repo sessionId exerciseId' reps' duration' =
     (case session_getById repo sessionId of
        None \<Rightarrow> (Inl (Error ''Session not found''), repo)
      | Some session \<Rightarrow>
          (let completion = \<lparr>exerciseId = exerciseId', exercise_completed = True,
                              actual_reps = reps', actual_duration = duration'\<rparr>;
               existingIndex = findIndex (\<lambda>e. exerciseId e = exerciseId') (exercises session);
               session' =
                 (if existingIndex \<ge> 0 then
                    session\<lparr>exercises := (exercises session)[nat existingIndex := completion]\<rparr>
                  else session\<lparr>exercises := exercises session @ [completion]\<rparr>)
           in (Inr (), session_update repo session')))"


section \<open>\<open>SessionScreen.loadSession\<close>\<close>

text \<open>
  The body of the \<open>try\<close> block of \<open>loadSession\<close> (lines 65 to 78): the exercises of the
  routine are resolved, then the session is created. Its result is the exercise list
  and the new session's identifier, which the screen keeps; an error thrown is caught
  by the screen, which reports that the session could not be started and goes back.
  The two services run on the repositories above.
\<close>

record Services =
  routineService :: RoutineService
  sessionRepository :: MockSessionRepository

definition loadSession ::
    "Services \<Rightarrow> string \<Rightarrow> string \<Rightarrow> (error + Exercise list \<times> string) \<times> Services" where
  "loadSession app routineId' now =
     (case getRoutineExercises (routineService app) routineId' of
        Inl e \<Rightarrow> (Inl e, app)
      | Inr routineExercises \<Rightarrow>
          (case createSession (sessionRepository app) routineId' now of
             (newSessionId, repo') \<Rightarrow>
               (Inr (routineExercises, newSessionId), app\<lparr>sessionRepository := repo'\<rparr>)))"


section \<open>Terms of the specification\<close>

text \<open>
  The calendar days on which the history has a completed session: the local dates of
  the starts of its completed sessions.
\<close>

definition completed_days :: "int \<Rightarrow> (instant \<times> bool) list \<Rightarrow> day set" where
  "completed_days offset history = set (map (\<lambda>(start, flag). local_date offset start) (filter snd history))"

text \<open>The dates stored in the \<open>date_iso\<close> column of the completed rows.\<close>

definition stored_completed_dates :: "DbSessionLog list \<Rightarrow> day set" where
  "stored_completed_dates session_logs =
     set (map date_iso (filter (\<lambda>r. db_completed r = 1) session_logs))"


text \<open>
  The longest run of consecutive days in a list of distinct days in descending order:
  a counter that starts at 1, grows with each day that is one day before the previous
  one and is reset to 1 by a gap, and the maximum it reaches. It is 0 for no day.
\<close>

fun longest_run_scan :: "day \<Rightarrow> day list \<Rightarrow> nat \<Rightarrow> nat \<Rightarrow> nat" where
  "longest_run_scan prev [] counter maximum = maximum"
| "longest_run_scan prev (d # ds) counter maximum =
     (if differenceInDays prev d = 1
      then longest_run_scan d ds (counter + 1) (max maximum (counter + 1))
      else longest_run_scan d ds 1 maximum)"

definition longest_run :: "day list \<Rightarrow> nat" where
  "longest_run ds = (case ds of [] \<Rightarrow> 0 | d # rest \<Rightarrow> longest_run_scan d rest 1 1)"

text \<open>
  The number of days at the head of the list that continue the run of the day before
  them, and whether the most recent day is today or yesterday.
\<close>

fun leading_run :: "day \<Rightarrow> day list \<Rightarrow> nat" where
  "leading_run prev [] = 0"
| "leading_run prev (d # ds) =
     (if differenceInDays prev d = 1 then 1 + leading_run d ds else 0)"

definition anchored :: "day \<Rightarrow> day list \<Rightarrow> bool" where
  "anchored today ds =
     (case ds of [] \<Rightarrow> False
      | d # rest \<Rightarrow> differenceInDays today d = 0 \<or> differenceInDays today d = 1)"

text \<open>
  The seconds that one exercise adds to the estimate: its duration if it has one that
  counts (the exercise is duration-based), else three seconds a rep if it has reps that
  count (rep-based).
\<close>

definition exercise_seconds :: "Exercise \<Rightarrow> int" where
  "exercise_seconds e =
     (if truthy (ex_duration e) then the (ex_duration e)
      else if truthy (ex_reps e) then the (ex_reps e) * 3 else 0)"

text \<open>
  The invariant of an exercise definition: its measurement mode determines which of
  the two targets is populated, and exactly one is. Under it the seconds of an
  exercise are read off its mode.
\<close>

definition mode_determines_target :: "Exercise \<Rightarrow> bool" where
  "mode_determines_target e =
     (case ex_type e of
        type_duration \<Rightarrow> ex_duration e \<noteq> None \<and> ex_reps e = None
      | type_reps \<Rightarrow> ex_reps e \<noteq> None \<and> ex_duration e = None)"

definition seconds_by_type :: "Exercise \<Rightarrow> int" where
  "seconds_by_type e =
     (case ex_type e of
        type_duration \<Rightarrow> the (ex_duration e)
      | type_reps \<Rightarrow> the (ex_reps e) * 3)"

text \<open>Ten seconds of rest between two exercises: none for fewer than two exercises.\<close>

definition rest_seconds :: "nat \<Rightarrow> int" where
  "rest_seconds n = (if 2 \<le> n then 10 * (int n - 1) else 0)"

text \<open>
  The checks of a validation, in order, each with the error of its failure; the result
  of the validation is the error of the first check that fails.
\<close>

definition first_failing :: "(('a \<Rightarrow> bool) \<times> string) list \<Rightarrow> 'a \<Rightarrow> string option" where
  "first_failing checks x = map_option snd (find (\<lambda>(ok, message). \<not> ok x) checks)"

definition name_given :: "PartialExercise \<Rightarrow> bool" where
  "name_given e = (case name e of None \<Rightarrow> False | Some n \<Rightarrow> trim n \<noteq> [])"

definition description_given :: "PartialExercise \<Rightarrow> bool" where
  "description_given e = (case description e of None \<Rightarrow> False | Some d \<Rightarrow> trim d \<noteq> [])"

definition category_present :: "PartialExercise \<Rightarrow> bool" where
  "category_present e = (category e \<noteq> None)"

text \<open>Exactly one of reps and duration is present.\<close>

definition exactly_one_target :: "PartialExercise \<Rightarrow> bool" where
  "exactly_one_target e = ((reps e \<noteq> None) \<noteq> (duration e \<noteq> None))"

text \<open>At least one of reps and duration is present and not zero.\<close>

definition some_target :: "PartialExercise \<Rightarrow> bool" where
  "some_target e = (truthy (reps e) \<or> truthy (duration e))"

definition checks_exactly_one :: "((PartialExercise \<Rightarrow> bool) \<times> string) list" where
  "checks_exactly_one =
     [(name_given, ''Name is required''),
      (description_given, ''Description is required''),
      (category_present, ''Category is required''),
      (exactly_one_target, ''Either reps or duration must be specified'')]"

definition checks_at_least_one :: "((PartialExercise \<Rightarrow> bool) \<times> string) list" where
  "checks_at_least_one =
     [(name_given, ''Name is required''),
      (description_given, ''Description is required''),
      (category_present, ''Category is required''),
      (some_target, ''Either reps or duration must be specified'')]"

text \<open>
  The completion recorded by \<open>markExerciseComplete\<close>, and the collection after it has
  been put in: in the place of the first entry of its exercise, or at the end.
\<close>

definition completion_of :: "string \<Rightarrow> int option \<Rightarrow> int option \<Rightarrow> ExerciseCompletion" where
  "completion_of i r d =
     \<lparr>exerciseId = i, exercise_completed = True, actual_reps = r, actual_duration = d\<rparr>"

definition upsert :: "ExerciseCompletion \<Rightarrow> ExerciseCompletion list \<Rightarrow> ExerciseCompletion list" where
  "upsert c cs =
     (if 0 \<le> findIndex (\<lambda>e. exerciseId e = exerciseId c) cs
      then cs[nat (findIndex (\<lambda>e. exerciseId e = exerciseId c) cs) := c]
      else cs @ [c])"


section \<open>Example data\<close>

text \<open>
  Two exercises, two routines and one session in progress, after the data of the
  in-memory repositories and of the services' tests.
\<close>

definition squats :: Exercise where
  "squats = \<lparr>ex_id = ''1'', ex_name = ''Squats'', ex_description = ''Test'',
             ex_category = strengthening, ex_type = type_reps, ex_reps = Some 10,
             ex_duration = None\<rparr>"

definition plank :: Exercise where
  "plank = \<lparr>ex_id = ''2'', ex_name = ''Plank'', ex_description = ''Test'',
            ex_category = strengthening, ex_type = type_duration, ex_reps = None,
            ex_duration = Some 30\<rparr>"

definition example_service :: RoutineService where
  "example_service =
     \<lparr>routineRepository =
        \<lparr>routines =
           [\<lparr>routine_id = ''1'', routine_name = ''Morning Routine'', routine_type = morning,
             exerciseIds = [''1'', ''2''], estimatedDuration = 15\<rparr>,
            \<lparr>routine_id = ''3'', routine_name = ''My Routine'', routine_type = custom,
             exerciseIds = [''2''], estimatedDuration = 0\<rparr>],
         routine_nextId = 4\<rparr>,
      exerciseRepository = [squats, plank]\<rparr>"

definition example_session :: SessionLog where
  "example_session =
     \<lparr>routineId = ''1'', startTime = ''2025-11-20T07:00:00.000Z'', endTime = None,
      exercises = [completion_of ''1'' (Some 10) None], completed = False,
      session_id = ''1''\<rparr>"

definition example_sessions :: MockSessionRepository where
  "example_sessions = \<lparr>sessions = [example_session], session_nextId = 2\<rparr>"

text \<open>
  Four completed sessions, started at eight in the evening, local time, on 20, 19, 18
  and 16 November 2025 (the days 20412, 20411, 20410 and 20408) in a zone eight hours
  west of UTC, that is at four in the morning of the next day in UTC; and nine in the
  evening of 20 November 2025 in that zone.
\<close>

definition evening_history :: "(instant \<times> bool) list" where
  "evening_history =
     [(1763697600000, True), (1763611200000, True), (1763524800000, True),
      (1763352000000, True)]"

definition evening_now :: instant where
  "evening_now = 1763701200000"

definition example_app :: Services where
  "example_app = \<lparr>routineService = example_service, sessionRepository = example_sessions\<rparr>"


section \<open>Properties of the statistics\<close>

declare current_streak_loop.simps [simp del] longest_streak_loop.simps [simp del]

lemma set_new_Set [simp]: "set (new_Set xs) = set xs"
  by (simp add: new_Set_def)

lemma distinct_new_Set [simp]: "distinct (new_Set xs)"
  by (simp add: new_Set_def)

lemma sort_new_Set: "sort (new_Set xs) = sorted_list_of_set (set xs)"
proof -
  have "sort (new_Set xs) = sort (remdups (new_Set xs))"
    by (simp add: distinct_remdups_id)
  also have "\<dots> = sorted_list_of_set (set (new_Set xs))"
    by (simp only: sorted_list_of_set_sort_remdups)
  finally show ?thesis by simp
qed

lemma uniqueDates_of_select_completed:
  "uniqueDates_of (select_completed session_logs)
     = rev (sorted_list_of_set (stored_completed_dates session_logs))"
  by (simp add: uniqueDates_of_def sort_new_Set select_completed_def stored_completed_dates_def)

lemma uniqueDates_four:
  assumes "stored_completed_dates session_logs = {t, t - 1, t - 2, t - 4}"
  shows "uniqueDates_of (select_completed session_logs) = [t, t - 1, t - 2, t - 4]"
proof -
  have "sorted_list_of_set (set [t - 4, t - 2, t - 1, t]) = [t - 4, t - 2, t - 1, t]"
    by (rule sorted_list_of_set.idem_if_sorted_distinct) simp_all
  moreover have "set [t - 4, t - 2, t - 1, t] = {t, t - 1, t - 2, t - 4}"
    by auto
  ultimately show ?thesis
    using assms by (simp add: uniqueDates_of_select_completed)
qed

lemma loops_four:
  "longest_streak_loop [t, t - 1, t - 2, t - 4] 1
     ((current_streak_loop t [t, t - 1, t - 2, t - 4] 0
        \<lparr>var_currentStreak = 0, var_longestStreak = 0, var_tempStreak = 0\<rparr>)
      \<lparr>var_tempStreak := 1\<rparr>)
   = \<lparr>var_currentStreak = 3, var_longestStreak = 3, var_tempStreak = 1\<rparr>"
  by (simp add: current_streak_loop.simps longest_streak_loop.simps differenceInDays_def)

declare bit_length.simps [simp del]

text \<open>
  The completion rate of two sessions completed out of three, and of 23 out of 40,
  where the product in double precision falls below the half that the exact product
  reaches.
\<close>

lemma to_double_2_of_3:
  "to_double 2 3 = (6004799503160661, 53)"
  "to_double 600479950316066100 9007199254740992 = (4691249611844266, 46)"
proof -
  have "bit_length 2 = 2" "bit_length 3 = 2"
    by (simp_all add: bit_length.simps)
  then show "to_double 2 3 = (6004799503160661, 53)"
    by (simp add: to_double_def Let_def round_half_even_def)
  have "bit_length 600479950316066100 = 60" "bit_length 9007199254740992 = 54"
    by (simp_all add: bit_length.simps)
  then show "to_double 600479950316066100 9007199254740992 = (4691249611844266, 46)"
    by (simp add: to_double_def Let_def round_half_even_def)
qed

lemma round_percent_2_of_3: "round_percent 2 3 = 67"
  by (simp add: round_percent_def to_double_2_of_3)

lemma to_double_23_of_40:
  "to_double 23 40 = (5179139571476070, 53)"
  "to_double 517913957147607000 9007199254740992 = (8092405580431359, 47)"
proof -
  have "bit_length 23 = 5" "bit_length 40 = 6"
    by (simp_all add: bit_length.simps)
  then show "to_double 23 40 = (5179139571476070, 53)"
    by (simp add: to_double_def Let_def round_half_even_def)
  have "bit_length 517913957147607000 = 59" "bit_length 9007199254740992 = 54"
    by (simp_all add: bit_length.simps)
  then show "to_double 517913957147607000 9007199254740992 = (8092405580431359, 47)"
    by (simp add: to_double_def Let_def round_half_even_def)
qed

lemma round_percent_23_of_40: "round_percent 23 40 = 57"
  by (simp add: round_percent_def to_double_23_of_40)

text \<open>
  On the dates as stored, and so for every history whose sessions are stored under
  their local dates, the streaks across one gap day are as specified.
\<close>

lemma streak_on_stored_dates:
  assumes "stored_completed_dates session_logs = {today, today - 1, today - 2, today - 4}"
  shows "currentStreak (getStatistics today session_logs) = 3
       \<and> longestStreak (getStatistics today session_logs) = 3
       \<and> lastSessionDate (getStatistics today session_logs) = Some today"
  using loops_four [of today]
  by (simp add: getStatistics_def Let_def uniqueDates_four [OF assms])

lemma stored_dates_of_history:
  assumes "list_all (\<lambda>(start, flag). utc_date start = local_date offset start) history"
  shows "stored_completed_dates (map (\<lambda>(start, flag). mapToDb start flag) history)
           = completed_days offset history"
  using assms
  by (induction history) (auto simp: stored_completed_dates_def completed_days_def mapToDb_def)

lemma streak_where_dates_agree:
  assumes "list_all (\<lambda>(start, flag). utc_date start = local_date offset start) history"
    and "completed_days offset history
           = {local_date offset now, local_date offset now - 1, local_date offset now - 2,
              local_date offset now - 4}"
  shows "currentStreak (statistics_of_history offset now history) = 3
       \<and> longestStreak (statistics_of_history offset now history) = 3
       \<and> lastSessionDate (statistics_of_history offset now history)
            = Some (local_date offset now)"
  unfolding statistics_of_history_def
  by (rule streak_on_stored_dates) (simp add: stored_dates_of_history [OF assms(1)] assms(2))

lemma evening_dates:
  "map (\<lambda>(start, flag). mapToDb start flag) evening_history
     = [\<lparr>date_iso = 20413, db_completed = 1\<rparr>, \<lparr>date_iso = 20412, db_completed = 1\<rparr>,
        \<lparr>date_iso = 20411, db_completed = 1\<rparr>, \<lparr>date_iso = 20409, db_completed = 1\<rparr>]"
  by (simp add: evening_history_def mapToDb_def utc_date_def)

text \<open>
  Claim C1. For a history whose completed sessions fall exactly on the days today,
  today - 1, today - 2 and today - 4, the statistics should have a current streak of 3,
  a longest streak of 3 and today as the last session date. A session is stored under
  the UTC date of its start, while today is the local date: four completed sessions at
  eight in the evening of those days, eight hours west of UTC, are stored under the
  days that follow them, and at nine in the evening of today the statistics have a
  current streak of 0 and tomorrow as the last session date.
\<close>

theorem streak_in_the_evening_west_of_UTC:
  "local_date (- 480) evening_now = 20412
   \<and> completed_days (- 480) evening_history = {20412, 20412 - 1, 20412 - 2, 20412 - 4}
   \<and> currentStreak (statistics_of_history (- 480) evening_now evening_history) = 0
   \<and> longestStreak (statistics_of_history (- 480) evening_now evening_history) = 3
   \<and> lastSessionDate (statistics_of_history (- 480) evening_now evening_history) = Some 20413"
proof -
  have today: "local_date (- 480) evening_now = 20412"
    by (simp add: local_date_def evening_now_def)
  have days: "completed_days (- 480) evening_history = {20412, 20412 - 1, 20412 - 2, 20412 - 4}"
    by (auto simp: completed_days_def evening_history_def local_date_def)
  have stats: "statistics_of_history (- 480) evening_now evening_history
      = getStatistics 20412
          [\<lparr>date_iso = 20413, db_completed = 1\<rparr>, \<lparr>date_iso = 20412, db_completed = 1\<rparr>,
           \<lparr>date_iso = 20411, db_completed = 1\<rparr>, \<lparr>date_iso = 20409, db_completed = 1\<rparr>]"
    by (simp only: statistics_of_history_def today evening_dates)
  have "currentStreak (statistics_of_history (- 480) evening_now evening_history) = 0"
    and "longestStreak (statistics_of_history (- 480) evening_now evening_history) = 3"
    and "lastSessionDate (statistics_of_history (- 480) evening_now evening_history) = Some 20413"
    unfolding stats
    by (simp_all add: getStatistics_def select_completed_def uniqueDates_of_def new_Set_def
        Let_def differenceInDays_def current_streak_loop.simps longest_streak_loop.simps)
  with today days show ?thesis by simp
qed

text \<open>
  Claim C2. The longest streak should be the length of the longest run of consecutive
  days among the completed days, so 1 for a history of one completed session. The
  second loop records a maximum only when it extends a run, so a single completed
  session five days before today is reported with a longest streak of 0.
\<close>

theorem longestStreak_single_old_session:
  "longestStreak (getStatistics 10 [\<lparr>date_iso = 5, db_completed = 1\<rparr>]) = 0
   \<and> longest_run (uniqueDates_of (select_completed [\<lparr>date_iso = 5, db_completed = 1\<rparr>])) = 1"
  by (simp add: getStatistics_def select_completed_def uniqueDates_of_def new_Set_def Let_def
      differenceInDays_def current_streak_loop.simps longest_streak_loop.simps
      longest_run_def)

lemma current_streak_loop_longest_eq:
  "var_longestStreak s = var_currentStreak s \<Longrightarrow>
   (if i = 0 then var_currentStreak s = 0 else var_tempStreak s = var_currentStreak s) \<Longrightarrow>
   var_longestStreak (current_streak_loop today ds i s)
     = var_currentStreak (current_streak_loop today ds i s)"
proof (induction today ds i s rule: current_streak_loop.induct)
  case (1 today ds i s)
  let ?first = "i = 0 \<and> (differenceInDays today (ds ! i) = 0
                     \<or> differenceInDays today (ds ! i) = 1)"
  let ?next = "i > 0 \<and> differenceInDays (ds ! (i - 1)) (ds ! i) = 1"
  consider (stop) "\<not> i < length ds \<or> (\<not> ?first \<and> \<not> ?next)"
    | (first) "i < length ds" ?first
    | (nxt) "i < length ds" "\<not> ?first" ?next
    by blast
  then show ?case
  proof cases
    case stop
    then have "current_streak_loop today ds i s = s"
      by (subst current_streak_loop.simps) auto
    with "1.prems"(1) show ?thesis by simp
  next
    case first
    then have "current_streak_loop today ds i s = current_streak_loop today ds (i + 1)
             \<lparr>var_currentStreak = var_currentStreak s + 1,
              var_longestStreak = max (var_longestStreak s) 1,
              var_tempStreak = 1\<rparr>"
      by (subst current_streak_loop.simps) auto
    then show ?thesis
      using "1.IH"(1) [OF first] "1.prems" first by simp
  next
    case nxt
    then have "current_streak_loop today ds i s = current_streak_loop today ds (i + 1)
             \<lparr>var_currentStreak = var_currentStreak s + 1,
              var_longestStreak = max (var_longestStreak s) (var_tempStreak s + 1),
              var_tempStreak = var_tempStreak s + 1\<rparr>"
      by (subst current_streak_loop.simps) auto
    then show ?thesis
      using "1.IH"(2) [OF nxt] "1.prems" nxt by simp
  qed
qed

lemma longest_streak_loop_current:
  "var_currentStreak (longest_streak_loop ds i s) = var_currentStreak s"
proof (induction ds i s rule: longest_streak_loop.induct)
  case (1 ds i s)
  then show ?case
    by (subst longest_streak_loop.simps) simp
qed

lemma longest_streak_loop_mono:
  "var_longestStreak s \<le> var_longestStreak (longest_streak_loop ds i s)"
proof (induction ds i s rule: longest_streak_loop.induct)
  case (1 ds i s)
  show ?case
  proof (cases "i < length ds")
    case False
    then show ?thesis by (subst longest_streak_loop.simps) simp
  next
    case True
    show ?thesis
    proof (cases "differenceInDays (ds ! (i - 1)) (ds ! i) = 1")
      case True
      with \<open>i < length ds\<close> "1.IH"(1) show ?thesis
        by (subst longest_streak_loop.simps) (fastforce simp: max_def)
    next
      case False
      with \<open>i < length ds\<close> "1.IH"(2) show ?thesis
        by (subst longest_streak_loop.simps) fastforce
    qed
  qed
qed

lemma longest_streak_loop_scan:
  "0 < i \<Longrightarrow> i \<le> length ds \<Longrightarrow>
   var_longestStreak (longest_streak_loop ds i s)
     = longest_run_scan (ds ! (i - 1)) (drop i ds) (var_tempStreak s) (var_longestStreak s)"
proof (induction ds i s rule: longest_streak_loop.induct)
  case (1 ds i s)
  show ?case
  proof (cases "i < length ds")
    case False
    with "1.prems" show ?thesis
      by (subst longest_streak_loop.simps) simp
  next
    case True
    then have d: "drop i ds = ds ! i # drop (i + 1) ds"
      by (simp add: Cons_nth_drop_Suc)
    show ?thesis
    proof (cases "differenceInDays (ds ! (i - 1)) (ds ! i) = 1")
      case yes: True
      from "1.IH"(1) [OF True yes] True
      have "var_longestStreak (longest_streak_loop ds (i + 1)
              (s\<lparr>var_tempStreak := var_tempStreak s + 1,
                 var_longestStreak := max (var_longestStreak s) (var_tempStreak s + 1)\<rparr>))
          = longest_run_scan (ds ! i) (drop (i + 1) ds) (var_tempStreak s + 1)
              (max (var_longestStreak s) (var_tempStreak s + 1))"
        by simp
      with True yes d show ?thesis
        by (subst longest_streak_loop.simps) simp
    next
      case no: False
      from "1.IH"(2) [OF True no] True
      have "var_longestStreak (longest_streak_loop ds (i + 1) (s\<lparr>var_tempStreak := 1\<rparr>))
          = longest_run_scan (ds ! i) (drop (i + 1) ds) 1 (var_longestStreak s)"
        by simp
      with True no d show ?thesis
        by (subst longest_streak_loop.simps) simp
    qed
  qed
qed

lemma current_streak_loop_leading:
  "0 < i \<Longrightarrow> i \<le> length ds \<Longrightarrow>
   var_currentStreak (current_streak_loop today ds i s)
     = var_currentStreak s + leading_run (ds ! (i - 1)) (drop i ds)"
proof (induction today ds i s rule: current_streak_loop.induct)
  case (1 today ds i s)
  show ?case
  proof (cases "i < length ds")
    case False
    with "1.prems" show ?thesis
      by (subst current_streak_loop.simps) simp
  next
    case True
    then have d: "drop i ds = ds ! i # drop (i + 1) ds"
      by (simp add: Cons_nth_drop_Suc)
    show ?thesis
    proof (cases "differenceInDays (ds ! (i - 1)) (ds ! i) = 1")
      case yes: True
      with "1.prems" True have c: "\<not> (i = 0 \<and> (differenceInDays today (ds ! i) = 0
                     \<or> differenceInDays today (ds ! i) = 1))"
        and n: "0 < i \<and> differenceInDays (ds ! (i - 1)) (ds ! i) = 1"
        by simp_all
      from "1.IH"(2) [OF True c n] True
      have "var_currentStreak (current_streak_loop today ds (i + 1)
             \<lparr>var_currentStreak = var_currentStreak s + 1,
              var_longestStreak = max (var_longestStreak s) (var_tempStreak s + 1),
              var_tempStreak = var_tempStreak s + 1\<rparr>)
          = var_currentStreak s + 1 + leading_run (ds ! i) (drop (i + 1) ds)"
        by simp
      with True yes d "1.prems" show ?thesis
        by (subst current_streak_loop.simps) simp
    next
      case no: False
      with True d "1.prems" show ?thesis
        by (subst current_streak_loop.simps) simp
    qed
  qed
qed

lemma current_streak_loop_start:
  "var_currentStreak (current_streak_loop today ds 0
      \<lparr>var_currentStreak = 0, var_longestStreak = 0, var_tempStreak = 0\<rparr>)
   = (case ds of [] \<Rightarrow> 0
      | d # rest \<Rightarrow> if anchored today ds then 1 + leading_run d rest else 0)"
proof (cases ds)
  case Nil
  then show ?thesis by (subst current_streak_loop.simps) simp
next
  case (Cons d rest)
  show ?thesis
  proof (cases "anchored today ds")
    case False
    with Cons show ?thesis
      by (subst current_streak_loop.simps) (simp add: anchored_def)
  next
    case True
    with Cons have "current_streak_loop today ds 0
        \<lparr>var_currentStreak = 0, var_longestStreak = 0, var_tempStreak = 0\<rparr>
      = current_streak_loop today ds 1
        \<lparr>var_currentStreak = 1, var_longestStreak = 1, var_tempStreak = 1\<rparr>"
      by (subst current_streak_loop.simps) (simp add: anchored_def)
    moreover have "var_currentStreak (current_streak_loop today ds 1
        \<lparr>var_currentStreak = 1, var_longestStreak = 1, var_tempStreak = 1\<rparr>)
      = 1 + leading_run (ds ! 0) (drop 1 ds)"
      using current_streak_loop_leading [of 1 ds today] Cons by simp
    ultimately show ?thesis using Cons True by simp
  qed
qed

lemma longest_run_scan_max:
  "longest_run_scan prev ds c m = max m (longest_run_scan prev ds c 0)"
proof (induction ds arbitrary: prev c m)
  case Nil
  then show ?case by simp
next
  case (Cons d ds)
  show ?case
  proof (cases "differenceInDays prev d = 1")
    case True
    have "longest_run_scan d ds (c + 1) (max m (c + 1))
        = max (max m (c + 1)) (longest_run_scan d ds (c + 1) 0)"
      by (rule Cons.IH)
    moreover have "longest_run_scan d ds (c + 1) (max 0 (c + 1))
        = max (max 0 (c + 1)) (longest_run_scan d ds (c + 1) 0)"
      by (rule Cons.IH)
    ultimately show ?thesis using True by simp
  next
    case False
    with Cons.IH [of d 1 m] show ?thesis by simp
  qed
qed

lemma longest_run_scan_not_one:
  "0 < c \<Longrightarrow> longest_run_scan prev ds c 0 = 0 \<or> 2 \<le> longest_run_scan prev ds c 0"
proof (induction ds arbitrary: prev c)
  case Nil
  then show ?case by simp
next
  case (Cons d ds)
  show ?case
  proof (cases "differenceInDays prev d = 1")
    case True
    have "longest_run_scan d ds (c + 1) (max 0 (c + 1))
        = max (max 0 (c + 1)) (longest_run_scan d ds (c + 1) 0)"
      by (rule longest_run_scan_max)
    with True Cons.prems show ?thesis by simp
  next
    case False
    with Cons.IH [of 1 d] show ?thesis by simp
  qed
qed

lemma leading_run_le_scan:
  "0 < leading_run prev ds \<Longrightarrow> c + leading_run prev ds \<le> longest_run_scan prev ds c m"
proof (induction ds arbitrary: prev c m)
  case Nil
  then show ?case by simp
next
  case (Cons d ds)
  from Cons.prems have yes: "differenceInDays prev d = 1"
    by (simp split: if_splits)
  show ?case
  proof (cases "0 < leading_run d ds")
    case True
    from Cons.IH [OF True, of "c + 1" "max m (c + 1)"] yes show ?thesis by simp
  next
    case False
    have "longest_run_scan d ds (c + 1) (max m (c + 1))
        = max (max m (c + 1)) (longest_run_scan d ds (c + 1) 0)"
      by (rule longest_run_scan_max)
    with False yes show ?thesis by simp
  qed
qed

text \<open>
  What the code returns as the longest streak: the longest run of the specification
  when the most recent completed day is today or yesterday, or when some run has two
  days or more; otherwise 0, also when there are completed days.
\<close>

lemma longestStreak_characterisation:
  "longestStreak (getStatistics today session_logs)
     = (if anchored today (uniqueDates_of (select_completed session_logs))
           \<or> 2 \<le> longest_run (uniqueDates_of (select_completed session_logs))
        then longest_run (uniqueDates_of (select_completed session_logs)) else 0)"
proof -
  define ds where "ds = uniqueDates_of (select_completed session_logs)"
  define s1 where "s1 = current_streak_loop today ds 0
     \<lparr>var_currentStreak = 0, var_longestStreak = 0, var_tempStreak = 0\<rparr>"
  have l1: "var_longestStreak s1 = var_currentStreak s1"
    unfolding s1_def by (rule current_streak_loop_longest_eq) simp_all
  have res: "longestStreak (getStatistics today session_logs)
      = var_longestStreak (longest_streak_loop ds 1 (s1\<lparr>var_tempStreak := 1\<rparr>))"
    by (simp add: getStatistics_def Let_def ds_def s1_def)
  show ?thesis
  proof (cases ds)
    case Nil
    then have "longest_streak_loop ds 1 (s1\<lparr>var_tempStreak := 1\<rparr>) = s1\<lparr>var_tempStreak := 1\<rparr>"
      by (subst longest_streak_loop.simps) simp
    moreover from Nil have "var_currentStreak s1 = 0"
      unfolding s1_def by (simp add: current_streak_loop_start)
    ultimately show ?thesis
      using res l1 Nil by (simp add: ds_def [symmetric] anchored_def longest_run_def)
  next
    case (Cons d rest)
    define X where "X = longest_run_scan d rest 1 0"
    have c: "var_currentStreak s1 = (if anchored today ds then 1 + leading_run d rest else 0)"
      unfolding s1_def using Cons by (simp add: current_streak_loop_start)
    have "var_longestStreak (longest_streak_loop ds 1 (s1\<lparr>var_tempStreak := 1\<rparr>))
        = longest_run_scan (ds ! 0) (drop 1 ds) 1 (var_longestStreak s1)"
      using longest_streak_loop_scan [of 1 ds "s1\<lparr>var_tempStreak := 1\<rparr>"] Cons by simp
    also have "\<dots> = max (var_currentStreak s1) X"
      using Cons l1 longest_run_scan_max [of d rest 1 "var_currentStreak s1"]
      by (simp add: X_def)
    finally have code: "longestStreak (getStatistics today session_logs)
        = max (var_currentStreak s1) X"
      using res by simp
    have spec: "longest_run ds = max 1 X"
      using Cons longest_run_scan_max [of d rest 1 1] by (simp add: longest_run_def X_def)
    have X: "X = 0 \<or> 2 \<le> X"
      unfolding X_def by (rule longest_run_scan_not_one) simp
    have lead: "0 < leading_run d rest \<Longrightarrow> 1 + leading_run d rest \<le> X"
      unfolding X_def by (rule leading_run_le_scan)
    show ?thesis
    proof (cases "anchored today ds")
      case True
      show ?thesis
      proof (cases "0 < leading_run d rest")
        case True
        with lead \<open>anchored today ds\<close> c code spec show ?thesis
          by (simp add: ds_def [symmetric] max_def)
      next
        case False
        with \<open>anchored today ds\<close> c code spec show ?thesis
          by (simp add: ds_def [symmetric])
      qed
    next
      case False
      with c code spec X show ?thesis
        by (auto simp: ds_def [symmetric] max_def)
    qed
  qed
qed

text \<open>
  Claim C3. For every history and every day taken as today, the longest streak returned
  is at least the current streak returned: the first loop leaves the two equal, and the
  second loop never lowers the longest streak nor changes the current one.
\<close>

theorem longestStreak_ge_currentStreak:
  "currentStreak (getStatistics today session_logs)
     \<le> longestStreak (getStatistics today session_logs)"
proof -
  define ds where "ds = uniqueDates_of (select_completed session_logs)"
  define s1 where "s1 = current_streak_loop today ds 0
     \<lparr>var_currentStreak = 0, var_longestStreak = 0, var_tempStreak = 0\<rparr>"
  have eq: "var_longestStreak s1 = var_currentStreak s1"
    unfolding s1_def by (rule current_streak_loop_longest_eq) simp_all
  have "var_currentStreak (longest_streak_loop ds 1 (s1\<lparr>var_tempStreak := 1\<rparr>))
          = var_currentStreak s1"
    by (simp add: longest_streak_loop_current)
  moreover have "var_longestStreak (s1\<lparr>var_tempStreak := 1\<rparr>)
          \<le> var_longestStreak (longest_streak_loop ds 1 (s1\<lparr>var_tempStreak := 1\<rparr>))"
    by (rule longest_streak_loop_mono)
  ultimately show ?thesis
    using eq by (simp add: getStatistics_def Let_def ds_def s1_def)
qed


section \<open>Properties of the duration estimate\<close>

lemma totalSeconds_loop_sum:
  "totalSeconds_loop t es = t + sum_list (map exercise_seconds es)"
  by (induction es arbitrary: t) (simp_all add: exercise_seconds_def)

lemma Math_ceil_div_ceiling: "Math_ceil_div t 60 = \<lceil>real_of_int t / 60\<rceil>"
  using ceiling_divide_eq_div [where 'a = real, of t 60] by (simp add: Math_ceil_div_def)

lemma ceil_with_rest:
  "Math_ceil_div (sum_list (map f es) + (int (length es) - 1) * 10) 60
     = Math_ceil_div (sum_list (map f es) + rest_seconds (length es)) 60"
proof (cases es)
  case Nil
  then show ?thesis by (simp add: Math_ceil_div_def rest_seconds_def)
next
  case (Cons e es')
  then have "(int (length es) - 1) * 10 = rest_seconds (length es)"
    by (cases es') (simp_all add: rest_seconds_def)
  then show ?thesis by simp
qed

lemma seconds_by_type_eq:
  "mode_determines_target e \<Longrightarrow> exercise_seconds e = seconds_by_type e"
  by (auto simp: mode_determines_target_def exercise_seconds_def seconds_by_type_def truthy_def
      split: ExerciseType.splits option.splits)

lemma map_seconds_by_type:
  "list_all mode_determines_target es \<Longrightarrow> map exercise_seconds es = map seconds_by_type es"
  by (induction es) (simp_all add: seconds_by_type_eq)

lemma calculateTotalDuration_eq:
  "calculateTotalDuration es
     = \<lceil>real_of_int (sum_list (map exercise_seconds es) + rest_seconds (length es)) / 60\<rceil>"
  unfolding calculateTotalDuration_def totalSeconds_of_def totalSeconds_loop_sum
  using ceil_with_rest [of exercise_seconds es]
  by (simp add: Math_ceil_div_ceiling del: of_int_add)

lemma calculateRoutineDuration_eq:
  "calculateRoutineDuration svc rid = map_sum id calculateTotalDuration (getRoutineExercises svc rid)"
  by (simp add: calculateRoutineDuration_def calculateTotalDuration_def totalSeconds_of_def
      Let_def split: sum.splits)

lemma calculateTotalDuration_by_type:
  assumes "list_all mode_determines_target es"
  shows "calculateTotalDuration es
     = \<lceil>real_of_int (sum_list (map seconds_by_type es) + rest_seconds (length es)) / 60\<rceil>"
  using calculateTotalDuration_eq [of es] map_seconds_by_type [OF assms] by simp

text \<open>
  Claim C4. For every list of exercises the estimate is the ceiling of T / 60, where
  T is the sum of the exercises' seconds (the duration of an exercise that has one,
  else three seconds a rep) plus ten seconds of rest between consecutive exercises,
  none for fewer than two. For exercises whose measurement mode determines the
  populated target, the seconds are those of the mode. The estimate of
  \<open>RoutineService\<close> is the same function of the resolved exercises. An exercise of 30
  seconds and one of 60 seconds give 100 seconds in total and an estimate of 2.
  (For the empty list \<open>totalSeconds\<close> is \<open>-10\<close> and \<open>Math.ceil\<close> returns the zero \<open>-0\<close>.)
\<close>

theorem estimated_duration_is_ceiling:
  "calculateTotalDuration es
     = \<lceil>real_of_int (sum_list (map exercise_seconds es) + rest_seconds (length es)) / 60\<rceil>
   \<and> (list_all mode_determines_target es \<longrightarrow>
        calculateTotalDuration es
          = \<lceil>real_of_int (sum_list (map seconds_by_type es) + rest_seconds (length es)) / 60\<rceil>)
   \<and> calculateRoutineDuration svc rid
        = map_sum id calculateTotalDuration (getRoutineExercises svc rid)
   \<and> totalSeconds_of [e1\<lparr>ex_duration := Some 30\<rparr>, e2\<lparr>ex_duration := Some 60\<rparr>] = 100
   \<and> calculateTotalDuration [e1\<lparr>ex_duration := Some 30\<rparr>, e2\<lparr>ex_duration := Some 60\<rparr>] = 2"
proof -
  have "totalSeconds_of [e1\<lparr>ex_duration := Some 30\<rparr>, e2\<lparr>ex_duration := Some 60\<rparr>] = 100"
    by (simp add: totalSeconds_of_def truthy_def)
  moreover from this
  have "calculateTotalDuration [e1\<lparr>ex_duration := Some 30\<rparr>, e2\<lparr>ex_duration := Some 60\<rparr>] = 2"
    by (simp add: calculateTotalDuration_def Math_ceil_div_def)
  ultimately show ?thesis
    using calculateTotalDuration_eq [of es] calculateRoutineDuration_eq [of svc rid]
      calculateTotalDuration_by_type [of es]
    by blast
qed

theorem estimated_duration_is_ceiling_witness:
  "list_all mode_determines_target [plank, squats]
   \<and> calculateTotalDuration [plank, squats]
       = \<lceil>real_of_int (sum_list (map seconds_by_type [plank, squats])
                          + rest_seconds (length [plank, squats])) / 60\<rceil>
   \<and> sum_list (map seconds_by_type [plank, squats]) + rest_seconds (length [plank, squats]) = 70
   \<and> calculateTotalDuration [plank, squats] = 2"
proof -
  have h: "list_all mode_determines_target [plank, squats]"
    by (simp add: mode_determines_target_def plank_def squats_def)
  have t: "sum_list (map seconds_by_type [plank, squats]) + rest_seconds (length [plank, squats]) = 70"
    by (simp add: seconds_by_type_def rest_seconds_def plank_def squats_def)
  from estimated_duration_is_ceiling [of "[plank, squats]"] h
  have c: "calculateTotalDuration [plank, squats]
       = \<lceil>real_of_int (sum_list (map seconds_by_type [plank, squats])
                          + rest_seconds (length [plank, squats])) / 60\<rceil>"
    by blast
  have "calculateTotalDuration [plank, squats] = 2"
    unfolding c t by simp
  with h t c show ?thesis by blast
qed


section \<open>Properties of \<open>findIndex\<close> and of the session repository\<close>

lemma findIndex_ge: "- 1 \<le> findIndex p xs"
  by (induction xs) auto

lemma findIndex_nonneg_iff: "0 \<le> findIndex p xs \<longleftrightarrow> (\<exists>x \<in> set xs. p x)"
  by (induction xs) auto

lemma findIndex_key_iff: "0 \<le> findIndex (\<lambda>e. f e = k) xs \<longleftrightarrow> k \<in> f ` set xs"
  unfolding findIndex_nonneg_iff by force

lemma findIndex_absent: "findIndex p xs \<noteq> - 1 \<longleftrightarrow> 0 \<le> findIndex p xs"
  using findIndex_ge [of p xs] by auto

lemma findIndex_less_length: "findIndex p xs < int (length xs)"
  by (induction xs) auto

lemma find_update_at_findIndex:
  "find p xs = Some x \<Longrightarrow> p y \<Longrightarrow> find p (xs[nat (findIndex p xs) := y]) = Some y"
proof (induction xs)
  case Nil
  then show ?case by simp
next
  case (Cons a xs)
  show ?case
  proof (cases "p a")
    case True
    with Cons.prems show ?thesis by simp
  next
    case False
    with Cons.prems have found: "find p xs = Some x" by simp
    then have "0 \<le> findIndex p xs"
      by (auto simp: findIndex_nonneg_iff find_Some_iff)
    then have "nat (findIndex p xs + 1) = Suc (nat (findIndex p xs))" by simp
    with False Cons.IH [OF found Cons.prems(2)] \<open>0 \<le> findIndex p xs\<close> show ?thesis
      by simp
  qed
qed

lemma find_Some_holds: "find p xs = Some x \<Longrightarrow> p x"
  by (auto simp: find_Some_iff)

lemma session_getById_id: "session_getById repo i = Some s \<Longrightarrow> session_id s = i"
  unfolding session_getById_def by (drule find_Some_holds) simp

lemma session_getById_update:
  assumes "session_getById repo i = Some s" and "session_id s' = i"
  shows "session_getById (session_update repo s') i = Some s'"
proof -
  let ?p = "\<lambda>s. session_id s = i"
  from assms(1) have found: "find ?p (sessions repo) = Some s"
    by (simp add: session_getById_def)
  then have "0 \<le> findIndex ?p (sessions repo)"
    by (auto simp: findIndex_nonneg_iff find_Some_iff)
  then have "findIndex ?p (sessions repo) \<noteq> - 1" by simp
  with find_update_at_findIndex [of ?p "sessions repo" s s'] found assms(2) show ?thesis
    by (simp add: session_update_def session_getById_def Let_def)
qed


section \<open>Recording a completion\<close>

lemma markExerciseComplete_found:
  assumes "session_getById repo sid = Some s"
  shows "fst (markExerciseComplete repo sid eid r d) = Inr ()"
    and "session_getById (snd (markExerciseComplete repo sid eid r d)) sid
           = Some (s\<lparr>exercises := upsert (completion_of eid r d) (exercises s)\<rparr>)"
proof -
  show "fst (markExerciseComplete repo sid eid r d) = Inr ()"
    using assms by (simp add: markExerciseComplete_def Let_def)
  let ?s' = "s\<lparr>exercises := upsert (completion_of eid r d) (exercises s)\<rparr>"
  have id: "session_id ?s' = sid"
    using session_getById_id [OF assms] by simp
  have "snd (markExerciseComplete repo sid eid r d) = session_update repo ?s'"
    using assms by (simp add: markExerciseComplete_def Let_def upsert_def completion_of_def)
  with session_getById_update [OF assms id]
  show "session_getById (snd (markExerciseComplete repo sid eid r d)) sid = Some ?s'"
    by simp
qed

lemma upsert_present_length:
  "length (upsert c cs) = (if exerciseId c \<in> exerciseId ` set cs then length cs else length cs + 1)"
  by (simp add: upsert_def findIndex_key_iff)

lemma upsert_absent:
  "exerciseId c \<notin> exerciseId ` set cs \<Longrightarrow> upsert c cs = cs @ [c]"
  by (simp add: upsert_def findIndex_key_iff)

lemma update_present_filter:
  "distinct (map f xs) \<Longrightarrow> f y = k \<Longrightarrow> 0 \<le> findIndex (\<lambda>e. f e = k) xs \<Longrightarrow>
   filter (\<lambda>e. f e = k) (xs[nat (findIndex (\<lambda>e. f e = k) xs) := y]) = [y]
   \<and> map f (xs[nat (findIndex (\<lambda>e. f e = k) xs) := y]) = map f xs"
proof (induction xs)
  case Nil
  then show ?case by simp
next
  case (Cons a xs)
  show ?case
  proof (cases "f a = k")
    case True
    with Cons.prems have "k \<notin> f ` set xs" by simp
    then have "\<forall>e \<in> set xs. f e \<noteq> k" by blast
    then have "filter (\<lambda>e. f e = k) xs = []" by (simp add: filter_empty_conv)
    with True Cons.prems show ?thesis by simp
  next
    case False
    with Cons.prems have nn: "0 \<le> findIndex (\<lambda>e. f e = k) xs"
      by (simp split: if_splits)
    then have "nat (findIndex (\<lambda>e. f e = k) xs + 1) = Suc (nat (findIndex (\<lambda>e. f e = k) xs))"
      by simp
    with False Cons.IH [OF _ Cons.prems(2) nn] Cons.prems(1) nn show ?thesis
      by simp
  qed
qed

lemma upsert_distinct:
  assumes "distinct (map exerciseId cs)"
  shows "distinct (map exerciseId (upsert c cs))"
    and "filter (\<lambda>e. exerciseId e = exerciseId c) (upsert c cs) = [c]"
proof -
  show "distinct (map exerciseId (upsert c cs))"
  proof (cases "0 \<le> findIndex (\<lambda>e. exerciseId e = exerciseId c) cs")
    case True
    with update_present_filter [OF assms refl True] assms show ?thesis
      by (simp add: upsert_def)
  next
    case False
    then have "exerciseId c \<notin> exerciseId ` set cs"
      by (simp add: findIndex_key_iff)
    with False assms show ?thesis by (simp add: upsert_def)
  qed
  show "filter (\<lambda>e. exerciseId e = exerciseId c) (upsert c cs) = [c]"
  proof (cases "0 \<le> findIndex (\<lambda>e. exerciseId e = exerciseId c) cs")
    case True
    with update_present_filter [OF assms refl True] show ?thesis
      by (simp add: upsert_def)
  next
    case False
    then have "\<forall>e \<in> set cs. exerciseId e \<noteq> exerciseId c"
      by (simp add: findIndex_nonneg_iff)
    then have "filter (\<lambda>e. exerciseId e = exerciseId c) cs = []"
      by (simp add: filter_empty_conv)
    with False show ?thesis by (simp add: upsert_def)
  qed
qed

text \<open>
  Claim C5. Recording a completion in an existing session succeeds and puts the
  completion, with the reps and duration supplied, into the session's collection. When
  the exercise is already in the collection the length of the collection is unchanged;
  when it is not, exactly the new entry is appended. A collection with at most one
  entry for each exercise keeps that property, and its entry for the exercise recorded
  is then the one just supplied.
\<close>

theorem markExerciseComplete_upserts:
  assumes "session_getById repo sid = Some s"
  shows "\<exists>s'. fst (markExerciseComplete repo sid eid r d) = Inr ()
     \<and> session_getById (snd (markExerciseComplete repo sid eid r d)) sid = Some s'
     \<and> completion_of eid r d \<in> set (exercises s')
     \<and> (eid \<in> exerciseId ` set (exercises s) \<longrightarrow>
           length (exercises s') = length (exercises s))
     \<and> (eid \<notin> exerciseId ` set (exercises s) \<longrightarrow>
           exercises s' = exercises s @ [completion_of eid r d])
     \<and> (distinct (map exerciseId (exercises s)) \<longrightarrow>
           distinct (map exerciseId (exercises s'))
           \<and> filter (\<lambda>e. exerciseId e = eid) (exercises s') = [completion_of eid r d])"
proof -
  let ?c = "completion_of eid r d"
  let ?s' = "s\<lparr>exercises := upsert ?c (exercises s)\<rparr>"
  have id: "exerciseId ?c = eid" by (simp add: completion_of_def)
  have "?c \<in> set (upsert ?c (exercises s))"
  proof (cases "0 \<le> findIndex (\<lambda>e. exerciseId e = exerciseId ?c) (exercises s)")
    case True
    with findIndex_less_length [of "\<lambda>e. exerciseId e = exerciseId ?c" "exercises s"]
    show ?thesis by (simp add: upsert_def set_update_memI)
  next
    case False
    then show ?thesis by (simp add: upsert_def)
  qed
  moreover have "eid \<in> exerciseId ` set (exercises s) \<longrightarrow>
      length (upsert ?c (exercises s)) = length (exercises s)"
    using upsert_present_length [of ?c "exercises s"] id by simp
  moreover have "eid \<notin> exerciseId ` set (exercises s) \<longrightarrow>
      upsert ?c (exercises s) = exercises s @ [?c]"
    using upsert_absent [of ?c "exercises s"] id by simp
  moreover have "distinct (map exerciseId (exercises s)) \<longrightarrow>
      distinct (map exerciseId (upsert ?c (exercises s)))
      \<and> filter (\<lambda>e. exerciseId e = eid) (upsert ?c (exercises s)) = [?c]"
    using upsert_distinct [of "exercises s" ?c] id by simp
  ultimately show ?thesis
    using markExerciseComplete_found [OF assms, of eid r d] by simp
qed

theorem markExerciseComplete_upserts_witness:
  "session_getById example_sessions ''1'' = Some example_session
   \<and> ''1'' \<in> exerciseId ` set (exercises example_session)
   \<and> ''2'' \<notin> exerciseId ` set (exercises example_session)
   \<and> distinct (map exerciseId (exercises example_session))
   \<and> map_option exercises
        (session_getById (snd (markExerciseComplete example_sessions ''1'' ''1'' (Some 12) None)) ''1'')
       = Some [completion_of ''1'' (Some 12) None]
   \<and> map_option exercises
        (session_getById (snd (markExerciseComplete example_sessions ''1'' ''2'' None (Some 30))) ''1'')
       = Some [completion_of ''1'' (Some 10) None, completion_of ''2'' None (Some 30)]"
proof -
  have h: "session_getById example_sessions ''1'' = Some example_session"
    by (simp add: session_getById_def example_sessions_def example_session_def)
  have present: "''1'' \<in> exerciseId ` set (exercises example_session)"
    and absent: "''2'' \<notin> exerciseId ` set (exercises example_session)"
    and dist: "distinct (map exerciseId (exercises example_session))"
    by (simp_all add: example_session_def completion_of_def)
  from markExerciseComplete_upserts [OF h, of "''1''" "Some 12" None] present dist
  have one: "map_option exercises
        (session_getById (snd (markExerciseComplete example_sessions ''1'' ''1'' (Some 12) None)) ''1'')
       = Some [completion_of ''1'' (Some 12) None]"
    by (auto simp: example_session_def completion_of_def length_Suc_conv)
  from markExerciseComplete_upserts [OF h, of "''2''" None "Some 30"] absent
  have two: "map_option exercises
        (session_getById (snd (markExerciseComplete example_sessions ''1'' ''2'' None (Some 30))) ''1'')
       = Some [completion_of ''1'' (Some 10) None, completion_of ''2'' None (Some 30)]"
    by (auto simp: example_session_def)
  from h present absent dist one two show ?thesis by simp
qed

text \<open>
  Claim C10. Recording a completion in an existing session changes nothing of the
  session but its completion collection: the identifier, the routine, the start time,
  the end time and the completed flag are as before.
\<close>

theorem markExerciseComplete_frame:
  assumes "session_getById repo sid = Some s"
  shows "\<exists>s'. session_getById (snd (markExerciseComplete repo sid eid r d)) sid = Some s'
     \<and> s' = s\<lparr>exercises := exercises s'\<rparr>
     \<and> session_id s' = session_id s
     \<and> routineId s' = routineId s
     \<and> startTime s' = startTime s
     \<and> endTime s' = endTime s
     \<and> completed s' = completed s"
  using markExerciseComplete_found(2) [OF assms, of eid r d] by simp

theorem markExerciseComplete_frame_witness:
  "session_getById example_sessions ''1'' = Some example_session
   \<and> (\<exists>s'. session_getById (snd (markExerciseComplete example_sessions ''1'' ''2'' None (Some 30))) ''1'' = Some s'
     \<and> session_id s' = ''1''
     \<and> routineId s' = ''1''
     \<and> startTime s' = ''2025-11-20T07:00:00.000Z''
     \<and> endTime s' = None
     \<and> completed s' = False)"
proof -
  have h: "session_getById example_sessions ''1'' = Some example_session"
    by (simp add: session_getById_def example_sessions_def example_session_def)
  from markExerciseComplete_frame [OF h, of "''2''" None "Some 30"] h show ?thesis
    by (auto simp: example_session_def)
qed


section \<open>Creating and deleting a routine\<close>

declare toString.simps [simp del]

lemma trim_empty_iff: "trim s = [] \<longleftrightarrow> list_all is_whitespace s"
proof
  assume "list_all is_whitespace s"
  then have d: "dropWhile is_whitespace s = []"
    by (simp add: list_all_iff)
  show "trim s = []" unfolding trim_def d by simp
next
  assume "trim s = []"
  then have all: "\<forall>x \<in> set (dropWhile is_whitespace s). is_whitespace x"
    by (simp add: trim_def dropWhile_eq_Nil_conv)
  have "dropWhile is_whitespace s = []"
  proof (rule ccontr)
    assume ne: "dropWhile is_whitespace s \<noteq> []"
    then have "\<not> is_whitespace (hd (dropWhile is_whitespace s))"
      by (rule hd_dropWhile)
    moreover from ne have "hd (dropWhile is_whitespace s) \<in> set (dropWhile is_whitespace s)"
      by simp
    ultimately show False using all by blast
  qed
  then show "list_all is_whitespace s"
    by (simp add: list_all_iff dropWhile_eq_Nil_conv)
qed

lemma blank_title_iff: "(title = [] \<or> trim title = []) \<longleftrightarrow> list_all is_whitespace title"
  using trim_empty_iff [of title] by auto

lemma validate_all_exist_None:
  "list_all (\<lambda>i. exercise_getById repo i \<noteq> None) ids \<Longrightarrow> validate_all_exist repo ids = None"
  by (induction ids) (auto split: option.splits)

lemma validate_all_exist_first_unknown:
  "list_all (\<lambda>i. exercise_getById repo i \<noteq> None) known \<Longrightarrow> exercise_getById repo u = None \<Longrightarrow>
   validate_all_exist repo (known @ u # rest)
     = Some (Error (''Exercise with ID '' @ u @ '' not found''))"
  by (induction known) (auto split: option.splits)

lemma toString_4: "toString 4 = ''4''"
  by (simp add: toString.simps digit_def)

lemma toString_2: "toString 2 = ''2''"
  by (simp add: toString.simps digit_def)

text \<open>
  Claim C6. \<open>createRoutine\<close> checks in a fixed order and stops at the first failure,
  leaving the repositories as they were: a title that is empty or white space only
  fails with the error of the missing title, whatever the list; with a proper title,
  the empty list fails with the error of the empty list; with a proper title, a list
  whose first unknown identifier is \<open>u\<close> fails with the error that names \<open>u\<close>; and when
  every check passes, the routine saved is a custom one.
\<close>

theorem createRoutine_validation_order:
  "(list_all is_whitespace title \<longrightarrow>
      createRoutine svc title ids = (Inl (Error ''Routine title is required''), svc))
   \<and> (\<not> list_all is_whitespace title \<longrightarrow>
      createRoutine svc title [] = (Inl (Error ''Routine must contain at least one exercise''), svc))
   \<and> (\<not> list_all is_whitespace title
        \<and> list_all (\<lambda>i. exercise_getById (exerciseRepository svc) i \<noteq> None) known
        \<and> exercise_getById (exerciseRepository svc) u = None \<longrightarrow>
      createRoutine svc title (known @ u # rest)
        = (Inl (Error (''Exercise with ID '' @ u @ '' not found'')), svc))
   \<and> (\<not> list_all is_whitespace title \<and> ids \<noteq> []
        \<and> list_all (\<lambda>i. exercise_getById (exerciseRepository svc) i \<noteq> None) ids \<longrightarrow>
      createRoutine svc title ids
        = (Inr (),
           svc\<lparr>routineRepository :=
             \<lparr>routines = routines (routineRepository svc) @
                 [\<lparr>routine_id = toString (routine_nextId (routineRepository svc)),
                   routine_name = title, routine_type = custom, exerciseIds = ids,
                   estimatedDuration = 0\<rparr>],
              routine_nextId = routine_nextId (routineRepository svc) + 1\<rparr>\<rparr>))"
proof (intro conjI impI)
  assume "list_all is_whitespace title"
  then show "createRoutine svc title ids = (Inl (Error ''Routine title is required''), svc)"
    using blank_title_iff [of title] by (simp add: createRoutine_def)
next
  assume "\<not> list_all is_whitespace title"
  then show "createRoutine svc title []
      = (Inl (Error ''Routine must contain at least one exercise''), svc)"
    using blank_title_iff [of title] by (simp add: createRoutine_def)
next
  assume a: "\<not> list_all is_whitespace title
        \<and> list_all (\<lambda>i. exercise_getById (exerciseRepository svc) i \<noteq> None) known
        \<and> exercise_getById (exerciseRepository svc) u = None"
  then have "validate_all_exist (exerciseRepository svc) (known @ u # rest)
     = Some (Error (''Exercise with ID '' @ u @ '' not found''))"
    by (simp add: validate_all_exist_first_unknown)
  with a show "createRoutine svc title (known @ u # rest)
        = (Inl (Error (''Exercise with ID '' @ u @ '' not found'')), svc)"
    using blank_title_iff [of title] by (simp add: createRoutine_def)
next
  assume a: "\<not> list_all is_whitespace title \<and> ids \<noteq> []
        \<and> list_all (\<lambda>i. exercise_getById (exerciseRepository svc) i \<noteq> None) ids"
  then have "validate_all_exist (exerciseRepository svc) ids = None"
    by (simp add: validate_all_exist_None)
  with a show "createRoutine svc title ids
        = (Inr (),
           svc\<lparr>routineRepository :=
             \<lparr>routines = routines (routineRepository svc) @
                 [\<lparr>routine_id = toString (routine_nextId (routineRepository svc)),
                   routine_name = title, routine_type = custom, exerciseIds = ids,
                   estimatedDuration = 0\<rparr>],
              routine_nextId = routine_nextId (routineRepository svc) + 1\<rparr>\<rparr>)"
    using blank_title_iff [of title] by (simp add: createRoutine_def routine_save_def)
qed

theorem createRoutine_validation_order_witness:
  "list_all is_whitespace ''  ''
   \<and> createRoutine example_service ''  '' [] = (Inl (Error ''Routine title is required''), example_service)
   \<and> \<not> list_all is_whitespace ''Name''
   \<and> createRoutine example_service ''Name'' []
       = (Inl (Error ''Routine must contain at least one exercise''), example_service)
   \<and> list_all (\<lambda>i. exercise_getById (exerciseRepository example_service) i \<noteq> None) [''1'', ''2'']
   \<and> exercise_getById (exerciseRepository example_service) ''999'' = None
   \<and> createRoutine example_service ''Name'' [''1'', ''2'', ''999'', ''7'']
       = (Inl (Error ''Exercise with ID 999 not found''), example_service)
   \<and> fst (createRoutine example_service ''Name'' [''1'', ''2'']) = Inr ()
   \<and> map routine_type (routines (routineRepository (snd (createRoutine example_service ''Name'' [''1'', ''2'']))))
       = [morning, custom, custom]
   \<and> map routine_id (routines (routineRepository (snd (createRoutine example_service ''Name'' [''1'', ''2'']))))
       = [''1'', ''3'', ''4'']"
proof -
  have blank: "list_all is_whitespace ''  ''" and named: "\<not> list_all is_whitespace ''Name''"
    by (simp_all add: is_whitespace_def)
  have known: "list_all (\<lambda>i. exercise_getById (exerciseRepository example_service) i \<noteq> None) [''1'', ''2'']"
    and unknown: "exercise_getById (exerciseRepository example_service) ''999'' = None"
    by (simp_all add: exercise_getById_def example_service_def squats_def plank_def)
  note order = createRoutine_validation_order
    [where svc = example_service and known = "[''1'', ''2'']" and u = "''999''" and rest = "[''7'']"]
  from order [where title = "''  ''" and ids = "[]"] blank
  have 1: "createRoutine example_service ''  '' [] = (Inl (Error ''Routine title is required''), example_service)"
    by blast
  from order [where title = "''Name''" and ids = "[''1'', ''2'']"] named known unknown
  have 2: "createRoutine example_service ''Name'' []
       = (Inl (Error ''Routine must contain at least one exercise''), example_service)"
    and 3: "createRoutine example_service ''Name'' ([''1'', ''2''] @ ''999'' # [''7''])
       = (Inl (Error (''Exercise with ID '' @ ''999'' @ '' not found'')), example_service)"
    and 4: "createRoutine example_service ''Name'' [''1'', ''2'']
        = (Inr (),
           example_service\<lparr>routineRepository :=
             \<lparr>routines = routines (routineRepository example_service) @
                 [\<lparr>routine_id = toString (routine_nextId (routineRepository example_service)),
                   routine_name = ''Name'', routine_type = custom, exerciseIds = [''1'', ''2''],
                   estimatedDuration = 0\<rparr>],
              routine_nextId = routine_nextId (routineRepository example_service) + 1\<rparr>\<rparr>)"
    by blast+
  from 3 have e3: "createRoutine example_service ''Name'' [''1'', ''2'', ''999'', ''7'']
       = (Inl (Error ''Exercise with ID 999 not found''), example_service)"
    by simp
  have 5: "fst (createRoutine example_service ''Name'' [''1'', ''2'']) = Inr ()"
    and 6: "map routine_type (routines (routineRepository (snd (createRoutine example_service ''Name'' [''1'', ''2'']))))
       = [morning, custom, custom]"
    and 7: "map routine_id (routines (routineRepository (snd (createRoutine example_service ''Name'' [''1'', ''2'']))))
       = [''1'', ''3'', ''4'']"
    unfolding 4 by (simp_all add: example_service_def toString_4)
  from blank named known unknown 1 2 e3 5 6 7 show ?thesis by blast
qed

lemma routine_getById_delete: "routine_getById (routine_delete repo i) i = None"
  by (simp add: routine_getById_def routine_delete_def find_None_iff)

text \<open>
  Claim C7. \<open>deleteRoutine\<close> fails with \<open>Routine not found\<close> (not found) for an
  identifier that is not in the store; for a morning or an evening routine it fails
  with \<open>Cannot delete default routines\<close> (forbidden) and the routine stays in the store;
  a custom routine is deleted.
\<close>

theorem deleteRoutine_cases:
  "(routine_getById (routineRepository svc) i = None \<longrightarrow>
      deleteRoutine svc i = (Inl (Error ''Routine not found''), svc))
   \<and> (routine_getById (routineRepository svc) i = Some r
        \<and> (routine_type r = morning \<or> routine_type r = evening) \<longrightarrow>
      deleteRoutine svc i = (Inl (Error ''Cannot delete default routines''), svc)
      \<and> routine_getById (routineRepository (snd (deleteRoutine svc i))) i = Some r)
   \<and> (routine_getById (routineRepository svc) i = Some r \<and> routine_type r = custom \<longrightarrow>
      fst (deleteRoutine svc i) = Inr ()
      \<and> routine_getById (routineRepository (snd (deleteRoutine svc i))) i = None
      \<and> routines (routineRepository (snd (deleteRoutine svc i)))
           = filter (\<lambda>x. routine_id x \<noteq> i) (routines (routineRepository svc)))"
  by (auto simp: deleteRoutine_def routine_getById_delete)
     (simp add: routine_delete_def)

theorem deleteRoutine_cases_witness:
  "routine_getById (routineRepository example_service) ''999'' = None
   \<and> deleteRoutine example_service ''999'' = (Inl (Error ''Routine not found''), example_service)
   \<and> map_option routine_type (routine_getById (routineRepository example_service) ''1'') = Some morning
   \<and> deleteRoutine example_service ''1'' = (Inl (Error ''Cannot delete default routines''), example_service)
   \<and> map_option routine_type (routine_getById (routineRepository example_service) ''3'') = Some custom
   \<and> fst (deleteRoutine example_service ''3'') = Inr ()
   \<and> routine_getById (routineRepository (snd (deleteRoutine example_service ''3''))) ''3'' = None
   \<and> map routine_id (routines (routineRepository (snd (deleteRoutine example_service ''3'')))) = [''1'']"
proof -
  let ?m = "\<lparr>routine_id = ''1'', routine_name = ''Morning Routine'', routine_type = morning,
             exerciseIds = [''1'', ''2''], estimatedDuration = 15\<rparr>"
  let ?c = "\<lparr>routine_id = ''3'', routine_name = ''My Routine'', routine_type = custom,
             exerciseIds = [''2''], estimatedDuration = 0\<rparr>"
  have none: "routine_getById (routineRepository example_service) ''999'' = None"
    and m: "routine_getById (routineRepository example_service) ''1'' = Some ?m"
    and c: "routine_getById (routineRepository example_service) ''3'' = Some ?c"
    by (simp_all add: routine_getById_def example_service_def)
  from deleteRoutine_cases [where svc = example_service and i = "''999''"] none
  have 1: "deleteRoutine example_service ''999'' = (Inl (Error ''Routine not found''), example_service)"
    by blast
  from deleteRoutine_cases [where svc = example_service and i = "''1''" and r = ?m] m
  have 2: "deleteRoutine example_service ''1'' = (Inl (Error ''Cannot delete default routines''), example_service)"
    by simp
  from deleteRoutine_cases [where svc = example_service and i = "''3''" and r = ?c] c
  have 3: "fst (deleteRoutine example_service ''3'') = Inr ()"
    and 4: "routine_getById (routineRepository (snd (deleteRoutine example_service ''3''))) ''3'' = None"
    and 5: "routines (routineRepository (snd (deleteRoutine example_service ''3'')))
           = filter (\<lambda>x. routine_id x \<noteq> ''3'') (routines (routineRepository example_service))"
    by simp_all
  have 6: "map routine_id (routines (routineRepository (snd (deleteRoutine example_service ''3'')))) = [''1'']"
    unfolding 5 by (simp add: example_service_def)
  from none m c 1 2 3 4 6 show ?thesis by simp
qed


section \<open>Validating an exercise\<close>

lemma first_failing_Cons:
  "first_failing ((ok, message) # checks) x
     = (if ok x then first_failing checks x else Some message)"
  by (simp add: first_failing_def)

lemma first_failing_Nil: "first_failing [] x = None"
  by (simp add: first_failing_def)

lemma missing_or_blank_name: "missing_or_blank (name e) \<longleftrightarrow> \<not> name_given e"
  by (auto simp: missing_or_blank_def name_given_def trim_def split: option.splits)

lemma missing_or_blank_description:
  "missing_or_blank (description e) \<longleftrightarrow> \<not> description_given e"
  by (auto simp: missing_or_blank_def description_given_def trim_def split: option.splits)

text \<open>
  Claim C8, as stated, fails: a definition with a name, a description, a category and
  both reps and duration set is valid for \<open>validateExercise\<close>, while the check that
  exactly one of the two is present rejects it.
\<close>

theorem validateExercise_both_targets:
  "validateExercise \<lparr>name = Some ''Plank'', description = Some ''Hold'',
       category = Some strengthening, reps = Some 10, duration = Some 30\<rparr> = None
   \<and> first_failing checks_exactly_one \<lparr>name = Some ''Plank'', description = Some ''Hold'',
       category = Some strengthening, reps = Some 10, duration = Some 30\<rparr>
     = Some ''Either reps or duration must be specified''
   \<and> \<not> exactly_one_target \<lparr>name = Some ''Plank'', description = Some ''Hold'',
       category = Some strengthening, reps = Some 10, duration = Some 30\<rparr>"
  by (simp add: validateExercise_def missing_or_blank_def trim_def is_whitespace_def truthy_def
      first_failing_Cons first_failing_Nil checks_exactly_one_def name_given_def
      description_given_def category_present_def exactly_one_target_def)

text \<open>
  Claim C8, amended. \<open>validateExercise\<close> checks four conditions in order (the name is
  not empty after trimming, the description is not empty after trimming, the category
  is present, at least one of reps and duration is present and not zero), returns the
  error of the first that fails, and returns no error exactly for the definitions
  that satisfy all four.
\<close>

theorem validateExercise_first_failing:
  "validateExercise e = first_failing checks_at_least_one e
   \<and> (validateExercise e = None
        \<longleftrightarrow> name_given e \<and> description_given e \<and> category_present e \<and> some_target e)"
  by (simp add: validateExercise_def checks_at_least_one_def first_failing_Cons
      first_failing_Nil missing_or_blank_name missing_or_blank_description
      category_present_def some_target_def)


section \<open>Starting a session\<close>

lemma find_fresh_append:
  "\<forall>x \<in> set xs. \<not> p x \<Longrightarrow> p y \<Longrightarrow> find p (xs @ [y]) = Some y"
  by (induction xs) simp_all

lemma loadSession_unknown:
  "routine_getById (routineRepository (routineService app)) rid = None \<Longrightarrow>
   loadSession app rid now = (Inl (Error ''Routine not found''), app)"
  by (simp add: loadSession_def getRoutineExercises_def)

lemma loadSession_known:
  "routine_getById (routineRepository (routineService app)) rid = Some r \<Longrightarrow>
   loadSession app rid now
     = (Inr (push_found (exerciseRepository (routineService app)) [] (exerciseIds r),
             toString (session_nextId (sessionRepository app))),
        app\<lparr>sessionRepository :=
          \<lparr>sessions = sessions (sessionRepository app) @
              [\<lparr>routineId = rid, startTime = now, endTime = None, exercises = [],
                completed = False,
                session_id = toString (session_nextId (sessionRepository app))\<rparr>],
           session_nextId = session_nextId (sessionRepository app) + 1\<rparr>\<rparr>)"
  by (simp add: loadSession_def getRoutineExercises_def createSession_def session_save_def
      Let_def)

lemma loadSession_lookup:
  assumes "routine_getById (routineRepository (routineService app)) rid = Some r"
    and "toString (session_nextId (sessionRepository app))
           \<notin> session_id ` set (sessions (sessionRepository app))"
  shows "session_getById (sessionRepository (snd (loadSession app rid now)))
           (toString (session_nextId (sessionRepository app)))
         = Some \<lparr>routineId = rid, startTime = now, endTime = None, exercises = [],
                 completed = False,
                 session_id = toString (session_nextId (sessionRepository app))\<rparr>"
proof -
  let ?new = "\<lparr>routineId = rid, startTime = now, endTime = None, exercises = [],
                completed = False,
                session_id = toString (session_nextId (sessionRepository app))\<rparr>"
  from assms(2) have "\<forall>x \<in> set (sessions (sessionRepository app)).
      \<not> session_id x = toString (session_nextId (sessionRepository app))"
    by force
  then have "find (\<lambda>s. session_id s = toString (session_nextId (sessionRepository app)))
      (sessions (sessionRepository app) @ [?new]) = Some ?new"
    by (rule find_fresh_append) simp
  then show ?thesis
    by (simp add: loadSession_known [OF assms(1)] session_getById_def)
qed

text \<open>
  Claim C9. Starting a session for a routine identifier that is not in the store
  fails with \<open>Routine not found\<close>, thrown by \<open>getRoutineExercises\<close>, and leaves every
  repository as it was, so no session is persisted. For a known routine it appends to
  the session repository one session of that routine with the current time as start
  time, no end time, no completion, not completed, and returns that session's
  identifier; when no earlier session has that identifier, looking it up yields the
  new session.
\<close>

theorem loadSession_start:
  "(routine_getById (routineRepository (routineService app)) rid = None \<longrightarrow>
      loadSession app rid now = (Inl (Error ''Routine not found''), app))
   \<and> (routine_getById (routineRepository (routineService app)) rid = Some r \<longrightarrow>
      loadSession app rid now
        = (Inr (push_found (exerciseRepository (routineService app)) [] (exerciseIds r),
                toString (session_nextId (sessionRepository app))),
           app\<lparr>sessionRepository :=
             \<lparr>sessions = sessions (sessionRepository app) @
                 [\<lparr>routineId = rid, startTime = now, endTime = None, exercises = [],
                   completed = False,
                   session_id = toString (session_nextId (sessionRepository app))\<rparr>],
              session_nextId = session_nextId (sessionRepository app) + 1\<rparr>\<rparr>))
   \<and> (routine_getById (routineRepository (routineService app)) rid = Some r
        \<and> toString (session_nextId (sessionRepository app))
              \<notin> session_id ` set (sessions (sessionRepository app)) \<longrightarrow>
      session_getById (sessionRepository (snd (loadSession app rid now)))
          (toString (session_nextId (sessionRepository app)))
        = Some \<lparr>routineId = rid, startTime = now, endTime = None, exercises = [],
                completed = False,
                session_id = toString (session_nextId (sessionRepository app))\<rparr>)"
  using loadSession_unknown [of app rid now] loadSession_known [of app rid r now]
    loadSession_lookup [of app rid r now]
  by blast

theorem loadSession_start_witness:
  "routine_getById (routineRepository (routineService example_app)) ''999'' = None
   \<and> loadSession example_app ''999'' ''2025-11-21T07:00:00.000Z''
       = (Inl (Error ''Routine not found''), example_app)
   \<and> map_option routine_name (routine_getById (routineRepository (routineService example_app)) ''1'')
       = Some ''Morning Routine''
   \<and> toString (session_nextId (sessionRepository example_app))
        \<notin> session_id ` set (sessions (sessionRepository example_app))
   \<and> fst (loadSession example_app ''1'' ''2025-11-21T07:00:00.000Z'') = Inr ([squats, plank], ''2'')
   \<and> sessions (sessionRepository (snd (loadSession example_app ''1'' ''2025-11-21T07:00:00.000Z'')))
       = [example_session,
          \<lparr>routineId = ''1'', startTime = ''2025-11-21T07:00:00.000Z'', endTime = None,
           exercises = [], completed = False, session_id = ''2''\<rparr>]
   \<and> session_getById (sessionRepository (snd (loadSession example_app ''1'' ''2025-11-21T07:00:00.000Z''))) ''2''
       = Some \<lparr>routineId = ''1'', startTime = ''2025-11-21T07:00:00.000Z'', endTime = None,
           exercises = [], completed = False, session_id = ''2''\<rparr>"
proof -
  let ?m = "\<lparr>routine_id = ''1'', routine_name = ''Morning Routine'', routine_type = morning,
             exerciseIds = [''1'', ''2''], estimatedDuration = 15\<rparr>"
  let ?t = "''2025-11-21T07:00:00.000Z''"
  have none: "routine_getById (routineRepository (routineService example_app)) ''999'' = None"
    and m: "routine_getById (routineRepository (routineService example_app)) ''1'' = Some ?m"
    by (simp_all add: routine_getById_def example_app_def example_service_def)
  have n: "toString (session_nextId (sessionRepository example_app)) = ''2''"
    by (simp add: example_app_def example_sessions_def toString_2)
  have fresh: "toString (session_nextId (sessionRepository example_app))
        \<notin> session_id ` set (sessions (sessionRepository example_app))"
    unfolding n by (simp add: example_app_def example_sessions_def example_session_def)
  from loadSession_start [where app = example_app and rid = "''999''" and now = ?t] none
  have 1: "loadSession example_app ''999'' ?t = (Inl (Error ''Routine not found''), example_app)"
    by blast
  from loadSession_start [where app = example_app and rid = "''1''" and r = ?m and now = ?t]
    m fresh
  have 2: "loadSession example_app ''1'' ?t
        = (Inr (push_found (exerciseRepository (routineService example_app)) [] (exerciseIds ?m),
                toString (session_nextId (sessionRepository example_app))),
           example_app\<lparr>sessionRepository :=
             \<lparr>sessions = sessions (sessionRepository example_app) @
                 [\<lparr>routineId = ''1'', startTime = ?t, endTime = None,
                   exercises = [], completed = False,
                   session_id = toString (session_nextId (sessionRepository example_app))\<rparr>],
              session_nextId = session_nextId (sessionRepository example_app) + 1\<rparr>\<rparr>)"
    and 5: "session_getById (sessionRepository (snd (loadSession example_app ''1'' ?t)))
          (toString (session_nextId (sessionRepository example_app)))
        = Some \<lparr>routineId = ''1'', startTime = ?t, endTime = None, exercises = [],
                completed = False,
                session_id = toString (session_nextId (sessionRepository example_app))\<rparr>"
    by blast+
  have 3: "fst (loadSession example_app ''1'' ?t) = Inr ([squats, plank], ''2'')"
    unfolding 2 n
    by (simp add: example_app_def example_service_def exercise_getById_def squats_def plank_def)
  have 4: "sessions (sessionRepository (snd (loadSession example_app ''1'' ?t)))
       = [example_session,
          \<lparr>routineId = ''1'', startTime = ?t, endTime = None,
           exercises = [], completed = False, session_id = ''2''\<rparr>]"
    unfolding 2 n by (simp add: example_app_def example_sessions_def)
  from none m fresh 1 3 4 5 [unfolded n] show ?thesis by simp
qed

end
